theory Spec2Isabelle
  imports Main "HOL-Library.Multiset"
begin

section \<open>The banking application: tables, messages and the account object\<close>

text \<open>
  The classes \<^verbatim>\<open>Bank\<close> and \<^verbatim>\<open>Account\<close> keep their state in two SQL tables,
  \<^verbatim>\<open>accounts(account_number, name, balance)\<close> and
  \<^verbatim>\<open>transactions(id, account_number, transaction_desc, amount, timestamp)\<close> (the third
  table, \<^verbatim>\<open>users\<close>, belongs to the login pages and is not read or written by them), and
  talk to the user through \<^verbatim>\<open>st.success\<close>, \<^verbatim>\<open>st.warning\<close> and \<^verbatim>\<open>st.error\<close>. A table is
  the list of its rows in insertion order; the global cursor and connection become a
  \<open>database\<close> value passed to every function and returned by those that write.

  Amounts and initial balances are the integers the number-input widgets deliver, which
  stay below \<open>2 ^ 53\<close> in absolute value; \<open>amount\<close> is \<open>int\<close>. The \<^verbatim>\<open>balance\<close> column is
  \<^verbatim>\<open>REAL\<close>: a balance is read back as a Python float, and \<^verbatim>\<open>Account.deposit\<close> and
  \<^verbatim>\<open>Account.withdraw\<close> add and subtract floats. Every value is a whole number, so a float
  is modelled by the integer it holds, and \<open>to_float\<close> below is the rounding of a float
  operation: the exact result rounded to the nearest double, ties to even. An integer
  of the widgets' range converts to a float, and is stored in a \<^verbatim>\<open>REAL\<close> column, without
  change. The exponent range of a double (values beyond about \<open>1.8e308\<close>) is not modelled.
  The \<^verbatim>\<open>timestamp\<close> column gets \<^verbatim>\<open>CURRENT_TIMESTAMP\<close> (a text \<^verbatim>\<open>YYYY-MM-DD HH:MM:SS\<close>,
  so one second is its resolution); the model counts seconds as a \<open>nat\<close>, which orders
  the same way, and the clock reading is the argument \<open>now\<close> of the functions that insert.
\<close>

type_synonym amount = int
type_synonym timestamp = nat

record account_row =
  account_number :: string
  name :: string
  balance :: amount

record transaction_row =
  tx_id :: nat
  tx_account_number :: string
  tx_transaction_desc :: string
  tx_amount :: amount
  tx_timestamp :: timestamp

record database =
  accounts :: "account_row list"
  transactions :: "transaction_row list"

datatype message = St_success string | St_warning string | St_error string

datatype exn = InsufficientFundsError string

text \<open>The Python object \<^verbatim>\<open>Account\<close> with \<^verbatim>\<open>_account_number\<close>, \<^verbatim>\<open>_name\<close>, \<^verbatim>\<open>_balance\<close>.\<close>

record account =
  self_account_number :: string
  self_name :: string
  self_balance :: amount

definition empty_database :: database where
  "empty_database = \<lparr>accounts = [], transactions = []\<rparr>"

subsection \<open>SQL statements\<close>

text \<open>\<^verbatim>\<open>SELECT ... FROM accounts WHERE account_number = ?\<close> followed by \<^verbatim>\<open>fetchone()\<close>.\<close>

definition select_account :: "database \<Rightarrow> string \<Rightarrow> account_row option" where
  "select_account db a = find (\<lambda>r. account_number r = a) (accounts db)"

text \<open>\<^verbatim>\<open>UPDATE accounts SET balance = ? WHERE account_number = ?\<close>\<close>

definition update_balance :: "amount \<Rightarrow> string \<Rightarrow> database \<Rightarrow> database" where
  "update_balance b a db =
     db\<lparr>accounts := map (\<lambda>r. if account_number r = a then r\<lparr>balance := b\<rparr> else r) (accounts db)\<rparr>"

text \<open>
  \<^verbatim>\<open>INSERT INTO accounts (account_number, name, balance) VALUES (?, ?, ?)\<close>; the value is
  the cursor's \<^verbatim>\<open>rowcount\<close> (one row inserted) and the new database.
\<close>

definition insert_account :: "string \<Rightarrow> string \<Rightarrow> amount \<Rightarrow> database \<Rightarrow> nat \<times> database" where
  "insert_account a n b db =
     (1, db\<lparr>accounts := accounts db @ [\<lparr>account_number = a, name = n, balance = b\<rparr>]\<rparr>)"

text \<open>
  \<^verbatim>\<open>INSERT INTO transactions (account_number, transaction_desc, amount) VALUES (?, ?, ?)\<close>:
  \<^verbatim>\<open>id\<close> is \<^verbatim>\<open>AUTOINCREMENT\<close> (one more than the largest id so far, rows are never deleted)
  and \<^verbatim>\<open>timestamp\<close> defaults to the clock.
\<close>

definition next_id :: "transaction_row list \<Rightarrow> nat" where
  "next_id txs = Suc (fold max (map tx_id txs) 0)"

definition insert_transaction :: "timestamp \<Rightarrow> string \<Rightarrow> string \<Rightarrow> amount \<Rightarrow> database \<Rightarrow> database" where
  "insert_transaction now a d amt db =
     db\<lparr>transactions := transactions db @
        [\<lparr>tx_id = next_id (transactions db), tx_account_number = a,
          tx_transaction_desc = d, tx_amount = amt, tx_timestamp = now\<rparr>]\<rparr>"

subsection \<open>Module-level helper\<close>

definition account_exists :: "database \<Rightarrow> string \<Rightarrow> bool" where
  "account_exists db a = (select_account db a \<noteq> None)"

subsection \<open>Class \<^verbatim>\<open>Account\<close>\<close>

definition Account_init :: "string \<Rightarrow> account" where
  "Account_init a = \<lparr>self_account_number = a, self_name = [], self_balance = 0\<rparr>"

definition load_account_info :: "database \<Rightarrow> account \<Rightarrow> account" where
  "load_account_info db self =
     (case select_account db (self_account_number self) of
        Some account_data \<Rightarrow> self\<lparr>self_name := name account_data, self_balance := balance account_data\<rparr>
      | None \<Rightarrow> self)"

text \<open>
  Rounding to a double. A double has 53 significant bits: \<open>excess_bits m\<close> counts the
  low bits of \<open>m \<ge> 0\<close> beyond them, and \<open>round_half_even m e\<close> rounds \<open>m\<close> to a multiple
  of \<open>2 ^ e\<close>, the nearer one, and at a tie the one whose quotient is even.
\<close>

function excess_bits :: "int \<Rightarrow> nat" where
  "excess_bits m = (if m < 2 ^ 53 then 0 else Suc (excess_bits (m div 2)))"
  by pat_completeness auto
termination
  by (relation "measure nat") auto

declare excess_bits.simps [simp del]

definition round_half_even :: "int \<Rightarrow> nat \<Rightarrow> int" where
  "round_half_even m e =
     (let q = m div 2 ^ e; r = m mod 2 ^ e
      in (if 2 * r < 2 ^ e then q
          else if 2 * r > 2 ^ e then q + 1
          else if even q then q else q + 1) * 2 ^ e)"

definition to_float :: "int \<Rightarrow> int" where
  "to_float x =
     (if x < 0 then - round_half_even (- x) (excess_bits (- x))
      else round_half_even x (excess_bits x))"

text \<open>
  \<^verbatim>\<open>Account.deposit\<close>: the messages shown, the object and the database afterwards.
  \<^verbatim>\<open>self._balance += amount\<close> adds the amount to the float read from the \<^verbatim>\<open>REAL\<close> column.
\<close>

definition Account_deposit :: "account \<Rightarrow> amount \<Rightarrow> database \<Rightarrow> message list \<times> account \<times> database" where
  "Account_deposit self amt db =
     (if amt > 0 then
        let self' = self\<lparr>self_balance := to_float (self_balance self + amt)\<rparr>
        in ([], self', update_balance (self_balance self') (self_account_number self') db)
      else ([St_warning ''Invalid deposit amount''], self, db))"

text \<open>
  \<^verbatim>\<open>Account.withdraw\<close>: \<open>Inl\<close> is the exception raised. The comparison of the amount
  with the balance is exact in Python; the subtraction is a float operation.
\<close>

definition Account_withdraw :: "account \<Rightarrow> amount \<Rightarrow> database \<Rightarrow> exn + account \<times> database" where
  "Account_withdraw self amt db =
     (if amt \<le> self_balance self \<and> amt > 0 then
        let self' = self\<lparr>self_balance := to_float (self_balance self - amt)\<rparr>
        in Inr (self', update_balance (self_balance self') (self_account_number self') db)
      else Inl (InsufficientFundsError
                  (if amt > 0 then ''Insufficient funds'' else ''Invalid withdrawal amount'')))"

definition Account_balance_enquiry :: "account \<Rightarrow> amount" where
  "Account_balance_enquiry self = self_balance self"

definition add_transaction :: "timestamp \<Rightarrow> account \<Rightarrow> string \<Rightarrow> amount \<Rightarrow> database \<Rightarrow> database" where
  "add_transaction now self transaction_desc amt db =
     insert_transaction now (self_account_number self) transaction_desc amt db"

subsection \<open>Class \<^verbatim>\<open>Bank\<close>\<close>

definition get_account :: "database \<Rightarrow> string \<Rightarrow> account option" where
  "get_account db a =
     (case select_account db a of
        Some account_data \<Rightarrow> Some (load_account_info db (Account_init (account_number account_data)))
      | None \<Rightarrow> None)"

definition create_account :: "string \<Rightarrow> string \<Rightarrow> amount \<Rightarrow> database \<Rightarrow> message list \<times> database" where
  "create_account n a initial_balance db =
     (if account_exists db a then
        ([St_warning ''Account already exists. Please choose a different account number.''], db)
      else
        let (rowcount, db') = insert_account a n initial_balance db
        in if rowcount > 0 then ([St_success ''Account created successfully.''], db')
           else ([St_error ''Failed to create account. Please try again.''], db'))"

definition deposit :: "timestamp \<Rightarrow> string \<Rightarrow> amount \<Rightarrow> database \<Rightarrow> message list \<times> database" where
  "deposit now a amt db =
     (case get_account db a of
        None \<Rightarrow> ([St_error ''Account does not exist. Please enter a valid account number.''], db)
      | Some account \<Rightarrow>
          let (msgs, account', db') = Account_deposit account amt db
          in (msgs, add_transaction now account' ''Deposited'' amt db'))"

definition withdraw :: "timestamp \<Rightarrow> string \<Rightarrow> amount \<Rightarrow> database \<Rightarrow> message list \<times> database" where
  "withdraw now a amt db =
     (case get_account db a of
        None \<Rightarrow> ([St_error ''Account does not exist. Please enter a valid account number.''], db)
      | Some account \<Rightarrow>
          (case Account_withdraw account amt db of
             Inr (account', db') \<Rightarrow>
               ([St_success ''Amount withdrawn successfully''],
                add_transaction now account' ''Withdrawn'' amt db')
           | Inl (InsufficientFundsError e) \<Rightarrow> ([St_error e], db)))"

text \<open>\<^verbatim>\<open>Bank.balance_enquiry\<close> returns the pair or, after the warning, \<^verbatim>\<open>None\<close>.\<close>

definition balance_enquiry :: "database \<Rightarrow> string \<Rightarrow> message list \<times> (amount \<times> string) option" where
  "balance_enquiry db a =
     (case get_account db a of
        Some account \<Rightarrow> ([], Some (Account_balance_enquiry account, self_name account))
      | None \<Rightarrow> ([St_warning ''Account not found''], None))"

text \<open>
  \<^verbatim>\<open>Bank.transaction_details\<close>. Each of its two queries ends in
  \<^verbatim>\<open>ORDER BY timestamp DESC\<close>; SQL leaves the order of rows with equal timestamps to the
  engine, so the engine's ordering is the parameter \<open>order_by\<close>. The rows fetched are
  the triples \<^verbatim>\<open>(action, amount, timestamp)\<close>.

  \<^verbatim>\<open>list.sort(key=..., reverse=True)\<close> is stable: CPython reverses the list, sorts it
  ascending with its stable sort, and reverses the result, so rows with equal keys
  keep their order.
\<close>

type_synonym fetched = "string \<times> amount \<times> timestamp"

text \<open>The columns \<^verbatim>\<open>transaction_desc AS action, amount, timestamp\<close> of a row.\<close>

definition fetched_of :: "transaction_row \<Rightarrow> fetched" where
  "fetched_of r = (tx_transaction_desc r, tx_amount r, tx_timestamp r)"

definition select_transactions ::
  "(transaction_row list \<Rightarrow> transaction_row list) \<Rightarrow> database \<Rightarrow> string \<Rightarrow> string \<Rightarrow> fetched list" where
  "select_transactions order_by db a d =
     map fetched_of
       (order_by (filter (\<lambda>r. tx_account_number r = a \<and> tx_transaction_desc r = d) (transactions db)))"

definition sort_reverse :: "('a \<Rightarrow> 'k::linorder) \<Rightarrow> 'a list \<Rightarrow> 'a list" where
  "sort_reverse key xs = rev (sort_key key (rev xs))"

definition transaction_details ::
  "(transaction_row list \<Rightarrow> transaction_row list) \<Rightarrow> database \<Rightarrow> string \<Rightarrow> message list \<times> fetched list option" where
  "transaction_details order_by db a =
     (if \<not> account_exists db a then
        ([St_error ''Account does not exist. Please enter a valid account number.''], None)
      else
        let deposit_transactions = select_transactions order_by db a ''Deposited'';
            withdrawal_transactions = select_transactions order_by db a ''Withdrawn'';
            transactions = deposit_transactions @ withdrawal_transactions;
            transactions = sort_reverse (\<lambda>x. snd (snd x)) transactions
        in if transactions \<noteq> [] then ([], Some transactions)
           else ([St_warning ''No transactions found for this account.''], None))"

text \<open>
  One engine ordering, for running the model: descending timestamps, rows of one
  second in insertion order.
\<close>

definition order_by_timestamp_desc :: "transaction_row list \<Rightarrow> transaction_row list" where
  "order_by_timestamp_desc rows = sort_reverse tx_timestamp rows"

subsection \<open>Notions the properties are stated with\<close>

text \<open>Every stored balance is non-negative.\<close>

definition nonneg_balances :: "database \<Rightarrow> bool" where
  "nonneg_balances db = list_all (\<lambda>r. 0 \<le> balance r) (accounts db)"

text \<open>
  A sequence of calls of \<^verbatim>\<open>Bank.deposit\<close> and \<^verbatim>\<open>Bank.withdraw\<close> on one account, each with
  the clock reading at its time; \<open>run\<close> makes the calls in order and keeps, for each
  call, the messages it showed.
\<close>

datatype operation = Deposit amount | Withdraw amount




text \<open>A call was successful when it showed no warning and no error.\<close>

fun is_success :: "message \<Rightarrow> bool" where
  "is_success (St_success _) = True"
| "is_success (St_warning _) = False"
| "is_success (St_error _) = False"

definition succeeded :: "message list \<Rightarrow> bool" where
  "succeeded msgs = list_all is_success msgs"


fun withdrawn :: "(operation \<times> message list) list \<Rightarrow> amount" where
  "withdrawn [] = 0"
| "withdrawn ((Deposit amt, msgs) # trace) = withdrawn trace"
| "withdrawn ((Withdraw amt, msgs) # trace) = (if succeeded msgs then amt else 0) + withdrawn trace"

text \<open>
  The transaction history as the specification words it: all rows of the account,
  newest first, rows of one timestamp in the order of their insertion.
\<close>

definition history_in_insertion_order :: "database \<Rightarrow> string \<Rightarrow> fetched list" where
  "history_in_insertion_order db a =
     sort_reverse (\<lambda>x. snd (snd x))
       (map fetched_of (filter (\<lambda>r. tx_account_number r = a) (transactions db)))"

subsection \<open>Databases for running the model\<close>

text \<open>Alice's account \<^verbatim>\<open>A1\<close> with balance 100 and no transactions.\<close>

definition db_alice :: database where
  "db_alice =
     \<lparr>accounts = [\<lparr>account_number = ''A1'', name = ''Alice'', balance = 100\<rparr>], transactions = []\<rparr>"

text \<open>The same account overdrawn: balance \<open>-10\<close>.\<close>

definition db_overdrawn :: database where
  "db_overdrawn =
     \<lparr>accounts = [\<lparr>account_number = ''A1'', name = ''Alice'', balance = -10\<rparr>], transactions = []\<rparr>"



text \<open>The object \<^verbatim>\<open>Bank.get_account\<close> loads for Alice's account.\<close>

definition alice :: account where
  "alice = \<lparr>self_account_number = ''A1'', self_name = ''Alice'', self_balance = 100\<rparr>"


text \<open>
  Alice's account after a deposit of 50 at time 10, a withdrawal of 30 at time 20 and
  a deposit of 5 in the same second.
\<close>

definition db_history :: database where
  "db_history =
     \<lparr>accounts = [\<lparr>account_number = ''A1'', name = ''Alice'', balance = 125\<rparr>],
      transactions =
        [\<lparr>tx_id = 1, tx_account_number = ''A1'', tx_transaction_desc = ''Deposited'',
          tx_amount = 50, tx_timestamp = 10\<rparr>,
         \<lparr>tx_id = 2, tx_account_number = ''A1'', tx_transaction_desc = ''Withdrawn'',
          tx_amount = 30, tx_timestamp = 20\<rparr>,
         \<lparr>tx_id = 3, tx_account_number = ''A1'', tx_transaction_desc = ''Deposited'',
          tx_amount = 5, tx_timestamp = 20\<rparr>]\<rparr>"

section \<open>Facts about rounding\<close>

lemma excess_bits_small: "m < 2 ^ 53 \<Longrightarrow> excess_bits m = 0"
  by (simp add: excess_bits.simps)

lemma excess_bits_2_53: "excess_bits 9007199254740992 = 1"
  by (simp add: excess_bits.simps [of 9007199254740992] excess_bits_small)



lemma round_half_even_0 [simp]: "round_half_even m 0 = m"
  by (simp add: round_half_even_def)

lemma round_half_even_nonneg: "0 \<le> m \<Longrightarrow> 0 \<le> round_half_even m e"
  by (simp add: round_half_even_def Let_def pos_imp_zdiv_nonneg_iff)

lemma to_float_nonneg: "0 \<le> x \<Longrightarrow> 0 \<le> to_float x"
  by (simp add: to_float_def round_half_even_nonneg)

lemma to_float_exact:
  assumes "\<bar>x\<bar> \<le> 2 ^ 53"
  shows "to_float x = x"
proof -
  consider "x = 2 ^ 53" | "x = - (2 ^ 53)" | "\<bar>x\<bar> < 2 ^ 53"
    using assms by linarith
  then show ?thesis
  proof cases
    case 1
    then show ?thesis
      by (simp add: to_float_def excess_bits_2_53 round_half_even_def)
  next
    case 2
    then show ?thesis
      by (simp add: to_float_def excess_bits_2_53 round_half_even_def)
  next
    case 3
    then show ?thesis
      by (simp add: to_float_def excess_bits_small)
  qed
qed



section \<open>Facts about the queries\<close>

lemma select_account_Some_number:
  "select_account db a = Some r \<Longrightarrow> account_number r = a"
  by (auto simp: select_account_def find_Some_iff)

lemma get_account_Some:
  "select_account db a = Some r \<Longrightarrow>
   get_account db a = Some \<lparr>self_account_number = a, self_name = name r, self_balance = balance r\<rparr>"
  by (frule select_account_Some_number)
     (simp add: get_account_def load_account_info_def Account_init_def)

lemma get_account_None:
  "select_account db a = None \<Longrightarrow> get_account db a = None"
  by (simp add: get_account_def)



lemma select_account_insert_transaction [simp]:
  "select_account (insert_transaction now a d amt db) a' = select_account db a'"
  by (simp add: select_account_def insert_transaction_def)

lemma transactions_update_balance [simp]:
  "transactions (update_balance b a db) = transactions db"
  by (simp add: update_balance_def)

lemma find_append:
  "find P (xs @ ys) = (case find P xs of Some x \<Rightarrow> Some x | None \<Rightarrow> find P ys)"
  by (induction xs) auto

lemma select_account_insert_account:
  "select_account (snd (insert_account a n b db)) a' =
     (case select_account db a' of Some r \<Rightarrow> Some r
      | None \<Rightarrow> if a = a' then Some \<lparr>account_number = a, name = n, balance = b\<rparr> else None)"
  by (auto simp: select_account_def insert_account_def find_append split: option.splits)

lemma create_account_fresh:
  assumes "\<not> account_exists db a"
  shows "create_account n a b db =
           ([St_success ''Account created successfully.''], snd (insert_account a n b db))"
  using assms by (simp add: create_account_def insert_account_def)

lemma balance_enquiry_Some:
  "select_account db a = Some r \<Longrightarrow> balance_enquiry db a = ([], Some (balance r, name r))"
  by (simp add: balance_enquiry_def get_account_Some Account_balance_enquiry_def)

lemma balance_enquiry_insert_account_fresh:
  assumes "\<not> account_exists db a"
  shows "balance_enquiry (snd (insert_account a n b db)) a = ([], Some (b, n))"
proof -
  have "select_account db a = None"
    using assms by (simp add: account_exists_def)
  then have "select_account (snd (insert_account a n b db)) a =
      Some \<lparr>account_number = a, name = n, balance = b\<rparr>"
    by (simp add: select_account_insert_account)
  then show ?thesis
    by (simp add: balance_enquiry_Some)
qed

subsection \<open>The outcomes of \<^verbatim>\<open>Bank.deposit\<close> and \<^verbatim>\<open>Bank.withdraw\<close>, case by case\<close>

lemma deposit_positive:
  assumes "select_account db a = Some r" and "0 < amt"
  shows "deposit now a amt db =
           ([], insert_transaction now a ''Deposited'' amt
                  (update_balance (to_float (balance r + amt)) a db))"
  using assms
  by (simp add: deposit_def get_account_Some Account_deposit_def add_transaction_def Let_def)

lemma deposit_invalid:
  assumes "select_account db a = Some r" and "amt \<le> 0"
  shows "deposit now a amt db =
           ([St_warning ''Invalid deposit amount''], insert_transaction now a ''Deposited'' amt db)"
  using assms
  by (simp add: deposit_def get_account_Some Account_deposit_def add_transaction_def Let_def)

lemma deposit_absent:
  assumes "select_account db a = None"
  shows "deposit now a amt db =
           ([St_error ''Account does not exist. Please enter a valid account number.''], db)"
  using assms by (simp add: deposit_def get_account_None)

lemma withdraw_ok:
  assumes "select_account db a = Some r" and "0 < amt" and "amt \<le> balance r"
  shows "withdraw now a amt db =
           ([St_success ''Amount withdrawn successfully''],
            insert_transaction now a ''Withdrawn'' amt
              (update_balance (to_float (balance r - amt)) a db))"
  using assms
  by (simp add: withdraw_def get_account_Some Account_withdraw_def add_transaction_def Let_def)

lemma withdraw_insufficient:
  assumes "select_account db a = Some r" and "0 < amt" and "balance r < amt"
  shows "withdraw now a amt db = ([St_error ''Insufficient funds''], db)"
  using assms
  by (simp add: withdraw_def get_account_Some Account_withdraw_def)

lemma withdraw_invalid:
  assumes "select_account db a = Some r" and "amt \<le> 0"
  shows "withdraw now a amt db = ([St_error ''Invalid withdrawal amount''], db)"
  using assms
  by (simp add: withdraw_def get_account_Some Account_withdraw_def)

lemma withdraw_absent:
  assumes "select_account db a = None"
  shows "withdraw now a amt db =
           ([St_error ''Account does not exist. Please enter a valid account number.''], db)"
  using assms by (simp add: withdraw_def get_account_None)




lemma select_db_alice:
  "select_account db_alice ''A1'' = Some \<lparr>account_number = ''A1'', name = ''Alice'', balance = 100\<rparr>"
  by (simp add: select_account_def db_alice_def)

lemma select_db_overdrawn:
  "select_account db_overdrawn ''A1'' = Some \<lparr>account_number = ''A1'', name = ''Alice'', balance = -10\<rparr>"
  by (simp add: select_account_def db_overdrawn_def)

subsection \<open>Non-negative balances, step by step\<close>

lemma nonneg_update_balance:
  "nonneg_balances db \<Longrightarrow> 0 \<le> b \<Longrightarrow> nonneg_balances (update_balance b a db)"
  by (auto simp: nonneg_balances_def update_balance_def list_all_iff)

lemma nonneg_insert_transaction [simp]:
  "nonneg_balances (insert_transaction now a d amt db) = nonneg_balances db"
  by (simp add: nonneg_balances_def insert_transaction_def)

lemma nonneg_insert_account:
  "nonneg_balances db \<Longrightarrow> 0 \<le> b \<Longrightarrow> nonneg_balances (snd (insert_account a n b db))"
  by (simp add: nonneg_balances_def insert_account_def)

lemma nonneg_selected:
  assumes "nonneg_balances db" and "select_account db a = Some r"
  shows "0 \<le> balance r"
proof -
  have "r \<in> set (accounts db)"
    using assms(2) by (auto simp: select_account_def find_Some_iff)
  then show ?thesis
    using assms(1) by (simp add: nonneg_balances_def list_all_iff)
qed

lemma nonneg_create_account:
  assumes "nonneg_balances db" and "0 \<le> b"
  shows "nonneg_balances (snd (create_account n a b db))"
proof (cases "account_exists db a")
  case True
  then show ?thesis using assms(1) by (simp add: create_account_def)
next
  case False
  then show ?thesis
    using assms by (simp add: create_account_fresh nonneg_insert_account)
qed

lemma nonneg_Account_deposit:
  assumes "nonneg_balances db" and "0 \<le> self_balance self"
  shows "nonneg_balances (snd (snd (Account_deposit self amt db)))"
  using assms by (simp add: Account_deposit_def Let_def nonneg_update_balance to_float_nonneg)

lemma nonneg_Account_withdraw:
  assumes "nonneg_balances db" and "Account_withdraw self amt db = Inr (self', db')"
  shows "nonneg_balances db'"
  using assms
  by (auto simp: Account_withdraw_def Let_def nonneg_update_balance to_float_nonneg
      split: if_splits)

lemma nonneg_deposit:
  assumes "nonneg_balances db"
  shows "nonneg_balances (snd (deposit now a amt db))"
proof (cases "select_account db a")
  case None
  then show ?thesis using assms by (simp add: deposit_absent)
next
  case (Some r)
  then have "0 \<le> balance r" using assms by (simp add: nonneg_selected)
  then show ?thesis
    using assms Some
    by (cases "0 < amt")
       (simp_all add: deposit_positive deposit_invalid nonneg_update_balance to_float_nonneg)
qed

lemma nonneg_withdraw:
  assumes "nonneg_balances db"
  shows "nonneg_balances (snd (withdraw now a amt db))"
proof (cases "select_account db a")
  case None
  then show ?thesis using assms by (simp add: withdraw_absent)
next
  case (Some r)
  consider "amt \<le> 0" | "0 < amt" "amt \<le> balance r" | "0 < amt" "balance r < amt"
    by linarith
  then show ?thesis
  proof cases
    case 1
    then show ?thesis using assms Some by (simp add: withdraw_invalid)
  next
    case 2
    then show ?thesis using assms Some
      by (simp add: withdraw_ok nonneg_update_balance to_float_nonneg)
  next
    case 3
    then show ?thesis using assms Some by (simp add: withdraw_insufficient)
  qed
qed

subsection \<open>One call and a sequence of calls on an account\<close>










subsection \<open>Sorting in reverse and the history query\<close>

lemma mset_sort_reverse [simp]: "mset (sort_reverse key xs) = mset xs"
  by (simp add: sort_reverse_def)

lemma sorted_sort_reverse: "sorted (rev (map key (sort_reverse key xs)))"
  by (simp add: sort_reverse_def rev_map)

lemma sort_reverse_stable:
  "filter (\<lambda>x. key x = k) (sort_reverse key xs) = filter (\<lambda>x. key x = k) xs"
proof -
  have "filter (\<lambda>x. key x = k) (sort_reverse key xs) =
        rev (filter (\<lambda>x. key x = k) (sort_key key (rev xs)))"
    by (simp add: sort_reverse_def rev_filter)
  also have "\<dots> = rev (filter (\<lambda>x. key x = k) (rev xs))"
    by (simp only: sort_key_stable)
  also have "\<dots> = filter (\<lambda>x. key x = k) xs"
    by (simp add: rev_filter)
  finally show ?thesis .
qed

lemma mset_order_by_timestamp_desc: "mset (order_by_timestamp_desc rows) = mset rows"
  by (simp add: order_by_timestamp_desc_def)

lemma mset_select_transactions:
  assumes "\<And>rows. mset (order_by rows) = mset rows"
  shows "mset (select_transactions order_by db a d) =
         mset (map fetched_of (filter (\<lambda>r. tx_account_number r = a \<and> tx_transaction_desc r = d) (transactions db)))"
  by (simp add: select_transactions_def assms)

lemma transaction_details_exists:
  assumes "account_exists db a"
  shows "transaction_details order_by db a =
     (let txs = sort_reverse (\<lambda>x. snd (snd x))
                  (select_transactions order_by db a ''Deposited'' @
                   select_transactions order_by db a ''Withdrawn'')
      in if txs \<noteq> [] then ([], Some txs)
         else ([St_warning ''No transactions found for this account.''], None))"
  using assms by (simp add: transaction_details_def Let_def)

lemma filter_either_description:
  "mset (filter (\<lambda>r. tx_account_number r = a \<and> tx_transaction_desc r = ''Deposited'') rows) +
   mset (filter (\<lambda>r. tx_account_number r = a \<and> tx_transaction_desc r = ''Withdrawn'') rows) =
   mset (filter (\<lambda>r. tx_account_number r = a \<and>
            (tx_transaction_desc r = ''Deposited'' \<or> tx_transaction_desc r = ''Withdrawn'')) rows)"
  by (induction rows) auto

lemma order_by_Nil:
  assumes "\<And>rows. mset (order_by rows) = mset rows"
  shows "order_by [] = []"
  using assms [of "[]"] by simp

lemma filter_account_description_Nil:
  assumes "filter (\<lambda>r. tx_account_number r = a) rows = []"
  shows "filter (\<lambda>r. tx_account_number r = a \<and> tx_transaction_desc r = d) rows = []"
  using assms by (simp add: filter_empty_conv)

lemma transaction_details_absent:
  assumes "\<not> account_exists db a"
  shows "transaction_details order_by db a =
     ([St_error ''Account does not exist. Please enter a valid account number.''], None)"
  using assms by (simp add: transaction_details_def)

lemma exists_db_history: "account_exists db_history ''A1''"
  by (simp add: account_exists_def select_account_def db_history_def)

lemma select_deposited_db_history:
  "select_transactions order_by_timestamp_desc db_history ''A1'' ''Deposited'' =
     [(''Deposited'', 5, 20), (''Deposited'', 50, 10)]"
  by (simp add: select_transactions_def order_by_timestamp_desc_def sort_reverse_def
      fetched_of_def db_history_def)

lemma select_withdrawn_db_history:
  "select_transactions order_by_timestamp_desc db_history ''A1'' ''Withdrawn'' =
     [(''Withdrawn'', 30, 20)]"
  by (simp add: select_transactions_def order_by_timestamp_desc_def sort_reverse_def
      fetched_of_def db_history_def)

lemma transaction_details_db_history:
  "transaction_details order_by_timestamp_desc db_history ''A1'' =
     ([], Some [(''Deposited'', 5, 20), (''Withdrawn'', 30, 20), (''Deposited'', 50, 10)])"
  by (simp add: transaction_details_exists [OF exists_db_history]
      select_deposited_db_history select_withdrawn_db_history sort_reverse_def)

lemma exists_db_alice: "account_exists db_alice ''A1''"
  by (simp add: account_exists_def select_db_alice)

lemma absent_db_alice: "\<not> account_exists db_alice ''A2''"
  by (simp add: account_exists_def select_account_def db_alice_def)

lemma no_rows_db_alice:
  "filter (\<lambda>r. tx_account_number r = ''A1'') (transactions db_alice) = []"
  by (simp add: db_alice_def)

section \<open>Creating accounts\<close>

text \<open>
  Claim C10. For a fresh account number and any initial balance, negative ones
  included, \<^verbatim>\<open>Bank.create_account\<close> reports success and stores exactly that balance:
  the new row is appended with the value given, and a balance enquiry returns it.
  Nothing checks the sign.
\<close>

theorem create_account_stores_any_balance:
  assumes "\<not> account_exists db a"
  shows "create_account n a b db =
           ([St_success ''Account created successfully.''],
            db\<lparr>accounts := accounts db @ [\<lparr>account_number = a, name = n, balance = b\<rparr>]\<rparr>)
         \<and> balance_enquiry (snd (create_account n a b db)) a = ([], Some (b, n))"
proof -
  have c: "create_account n a b db =
      ([St_success ''Account created successfully.''], snd (insert_account a n b db))"
    using assms by (rule create_account_fresh)
  have "balance_enquiry (snd (insert_account a n b db)) a = ([], Some (b, n))"
    using assms by (rule balance_enquiry_insert_account_fresh)
  with c show ?thesis by (simp add: insert_account_def)
qed

text \<open>An account with balance \<open>-5\<close> is created in the empty database.\<close>

theorem create_account_stores_any_balance_witness:
  "\<not> account_exists empty_database ''A1''
   \<and> create_account ''Alice'' ''A1'' (-5) empty_database =
       ([St_success ''Account created successfully.''],
        \<lparr>accounts = [\<lparr>account_number = ''A1'', name = ''Alice'', balance = -5\<rparr>], transactions = []\<rparr>)
   \<and> balance_enquiry (snd (create_account ''Alice'' ''A1'' (-5) empty_database)) ''A1'' =
       ([], Some (-5, ''Alice''))"
proof -
  have h: "\<not> account_exists empty_database ''A1''"
    by (simp add: account_exists_def select_account_def empty_database_def)
  show ?thesis
    using h create_account_stores_any_balance [OF h, of "''Alice''" "-5"]
    by (auto simp: empty_database_def)
qed

text \<open>
  Claim C9. Whatever the names, the account number and the balances, a second
  \<^verbatim>\<open>Bank.create_account\<close> with the account number of a first one shows the warning
  that the account already exists and leaves the database as the first call left
  it; the balance then read is the one the first call stored (or, when the account
  was there before the first call, the one it had).
\<close>

theorem create_account_twice:
  "create_account n2 a b2 (snd (create_account n1 a b1 db)) =
     ([St_warning ''Account already exists. Please choose a different account number.''],
      snd (create_account n1 a b1 db))
   \<and> balance_enquiry (snd (create_account n1 a b1 db)) a =
       (if account_exists db a then balance_enquiry db a else ([], Some (b1, n1)))"
proof -
  let ?db1 = "snd (create_account n1 a b1 db)"
  have ex: "account_exists ?db1 a"
  proof (cases "account_exists db a")
    case True
    then show ?thesis by (simp add: create_account_def)
  next
    case False
    then have "?db1 = snd (insert_account a n1 b1 db)"
      by (simp add: create_account_def insert_account_def)
    then show ?thesis
      by (simp add: account_exists_def select_account_insert_account split: option.splits)
  qed
  have second: "create_account n2 a b2 ?db1 =
     ([St_warning ''Account already exists. Please choose a different account number.''], ?db1)"
    using ex by (simp add: create_account_def)
  have bal: "balance_enquiry ?db1 a =
       (if account_exists db a then balance_enquiry db a else ([], Some (b1, n1)))"
  proof (cases "account_exists db a")
    case True
    then show ?thesis by (simp add: create_account_def)
  next
    case False
    then show ?thesis
      by (simp add: create_account_fresh balance_enquiry_insert_account_fresh)
  qed
  show ?thesis using second bal by simp
qed

section \<open>Deposits and withdrawals\<close>







text \<open>
  Claim C8, as the code has it. A failing \<^verbatim>\<open>Bank.withdraw\<close> shows one of three
  different error texts and leaves the database unchanged: the account-does-not-exist
  text when the account is absent; for an existing account
  \<^verbatim>\<open>Invalid withdrawal amount\<close> when \<open>amount \<le> 0\<close> (whatever the balance), and
  \<^verbatim>\<open>Insufficient funds\<close> when \<open>amount > balance\<close> and \<open>amount > 0\<close>.
\<close>

theorem withdraw_error_kinds:
  "(\<not> account_exists db a \<longrightarrow>
      withdraw now a amt db =
        ([St_error ''Account does not exist. Please enter a valid account number.''], db))
   \<and> (select_account db a = Some r \<and> amt \<le> 0 \<longrightarrow>
      withdraw now a amt db = ([St_error ''Invalid withdrawal amount''], db))
   \<and> (select_account db a = Some r \<and> 0 < amt \<and> balance r < amt \<longrightarrow>
      withdraw now a amt db = ([St_error ''Insufficient funds''], db))
   \<and> distinct [''Account does not exist. Please enter a valid account number.'',
               ''Invalid withdrawal amount'', ''Insufficient funds'']"
proof (intro conjI impI)
  assume "\<not> account_exists db a"
  then have "select_account db a = None"
    by (simp add: account_exists_def)
  then show "withdraw now a amt db =
        ([St_error ''Account does not exist. Please enter a valid account number.''], db)"
    by (rule withdraw_absent)
next
  assume "select_account db a = Some r \<and> amt \<le> 0"
  then show "withdraw now a amt db = ([St_error ''Invalid withdrawal amount''], db)"
    by (simp add: withdraw_invalid)
next
  assume "select_account db a = Some r \<and> 0 < amt \<and> balance r < amt"
  then show "withdraw now a amt db = ([St_error ''Insufficient funds''], db)"
    by (simp add: withdraw_insufficient)
next
  show "distinct [''Account does not exist. Please enter a valid account number.'',
               ''Invalid withdrawal amount'', ''Insufficient funds'']"
    by simp
qed

theorem withdraw_error_kinds_witness:
  "\<not> account_exists db_alice ''A2''
   \<and> withdraw 20 ''A2'' 30 db_alice =
        ([St_error ''Account does not exist. Please enter a valid account number.''], db_alice)
   \<and> select_account db_alice ''A1'' = Some \<lparr>account_number = ''A1'', name = ''Alice'', balance = 100\<rparr>
   \<and> withdraw 20 ''A1'' (-1) db_alice = ([St_error ''Invalid withdrawal amount''], db_alice)
   \<and> withdraw 20 ''A1'' 101 db_alice = ([St_error ''Insufficient funds''], db_alice)"
proof -
  have absent: "\<not> account_exists db_alice ''A2''"
    by (simp add: account_exists_def select_account_def db_alice_def)
  show ?thesis
    using absent select_db_alice
      withdraw_error_kinds [where db = db_alice and a = "''A2''" and now = 20 and amt = 30]
      withdraw_error_kinds [where db = db_alice and a = "''A1''" and now = 20 and amt = "-1"
        and r = "\<lparr>account_number = ''A1'', name = ''Alice'', balance = 100\<rparr>"]
      withdraw_error_kinds [where db = db_alice and a = "''A1''" and now = 20 and amt = 101
        and r = "\<lparr>account_number = ''A1'', name = ''Alice'', balance = 100\<rparr>"]
    by simp
qed

text \<open>
  Claim C8 as stated asks for both kinds at once where \<open>amount > balance\<close> and
  \<open>amount \<le> 0\<close> meet: withdrawing \<open>0\<close> from the account with balance \<open>-10\<close> shows
  \<^verbatim>\<open>Invalid withdrawal amount\<close> only.
\<close>

theorem withdraw_zero_from_overdrawn_counterexample:
  "select_account db_overdrawn ''A1'' = Some \<lparr>account_number = ''A1'', name = ''Alice'', balance = -10\<rparr>
   \<and> (-10::int) < 0
   \<and> withdraw 7 ''A1'' 0 db_overdrawn = ([St_error ''Invalid withdrawal amount''], db_overdrawn)
   \<and> withdraw 7 ''A1'' 0 db_overdrawn \<noteq> ([St_error ''Insufficient funds''], db_overdrawn)"
  using select_db_overdrawn withdraw_invalid [OF select_db_overdrawn, of 0 7] by simp

text \<open>
  Claim C4 at the input where the code departs from it: a deposit of \<open>-5\<close> into
  Alice's account shows \<^verbatim>\<open>Invalid deposit amount\<close> and leaves the balance alone, yet
  \<^verbatim>\<open>Bank.deposit\<close> goes on to \<^verbatim>\<open>add_transaction\<close> and a \<^verbatim>\<open>Deposited\<close> row with amount
  \<open>-5\<close> is appended. The withdrawal of the same amount, whose failure is an
  exception, changes nothing.
\<close>

theorem deposit_invalid_amount_appends_row:
  "deposit 10 ''A1'' (-5) db_alice =
     ([St_warning ''Invalid deposit amount''],
      db_alice\<lparr>transactions :=
        [\<lparr>tx_id = 1, tx_account_number = ''A1'', tx_transaction_desc = ''Deposited'',
          tx_amount = -5, tx_timestamp = 10\<rparr>]\<rparr>)
   \<and> withdraw 10 ''A1'' (-5) db_alice = ([St_error ''Invalid withdrawal amount''], db_alice)"
proof -
  have t: "transactions db_alice = []" by (simp add: db_alice_def)
  have "deposit 10 ''A1'' (-5) db_alice =
      ([St_warning ''Invalid deposit amount''], insert_transaction 10 ''A1'' ''Deposited'' (-5) db_alice)"
    using deposit_invalid [OF select_db_alice, of "-5" 10] by simp
  moreover have "insert_transaction 10 ''A1'' ''Deposited'' (-5) db_alice =
      db_alice\<lparr>transactions :=
        [\<lparr>tx_id = 1, tx_account_number = ''A1'', tx_transaction_desc = ''Deposited'',
          tx_amount = -5, tx_timestamp = 10\<rparr>]\<rparr>"
    by (simp add: insert_transaction_def t next_id_def)
  moreover have "withdraw 10 ''A1'' (-5) db_alice = ([St_error ''Invalid withdrawal amount''], db_alice)"
    using withdraw_invalid [OF select_db_alice, of "-5" 10] by simp
  ultimately show ?thesis by simp
qed

section \<open>The balance invariant and the balance after a sequence of calls\<close>

text \<open>
  Claim C3. From a database in which every stored balance is at least zero,
  \<^verbatim>\<open>Bank.create_account\<close> with an initial balance of at least zero, \<^verbatim>\<open>Bank.deposit\<close> and
  \<^verbatim>\<open>Bank.withdraw\<close>, with any arguments, lead to a database in which every stored
  balance is at least zero. So do the steps between which they commit:
  \<^verbatim>\<open>Account.deposit\<close> on the object \<^verbatim>\<open>Bank.get_account\<close> loaded, \<^verbatim>\<open>Account.withdraw\<close> where
  it raises nothing, and \<^verbatim>\<open>add_transaction\<close>.
\<close>

theorem balances_stay_nonneg:
  assumes "nonneg_balances db"
  shows "(0 \<le> b \<longrightarrow> nonneg_balances (snd (create_account n a b db)))
       \<and> nonneg_balances (snd (deposit now a amt db))
       \<and> nonneg_balances (snd (withdraw now a amt db))
       \<and> (get_account db a = Some self \<longrightarrow>
            nonneg_balances (snd (snd (Account_deposit self amt db))))
       \<and> (Account_withdraw self amt db = Inr (self', db') \<longrightarrow> nonneg_balances db')
       \<and> nonneg_balances (add_transaction now self d amt db)"
proof (intro conjI impI)
  assume "0 \<le> b"
  then show "nonneg_balances (snd (create_account n a b db))"
    using assms by (simp add: nonneg_create_account)
next
  show "nonneg_balances (snd (deposit now a amt db))"
    using assms by (rule nonneg_deposit)
next
  show "nonneg_balances (snd (withdraw now a amt db))"
    using assms by (rule nonneg_withdraw)
next
  assume g: "get_account db a = Some self"
  then obtain r where r: "select_account db a = Some r"
    by (cases "select_account db a") (simp_all add: get_account_None)
  then have "self_balance self = balance r"
    using g by (auto simp: get_account_Some)
  moreover have "0 \<le> balance r"
    using assms r by (rule nonneg_selected)
  ultimately show "nonneg_balances (snd (snd (Account_deposit self amt db)))"
    using assms by (simp add: nonneg_Account_deposit)
next
  assume "Account_withdraw self amt db = Inr (self', db')"
  then show "nonneg_balances db'"
    using assms by (simp add: nonneg_Account_withdraw)
next
  show "nonneg_balances (add_transaction now self d amt db)"
    using assms by (simp add: add_transaction_def)
qed

theorem balances_stay_nonneg_witness:
  "nonneg_balances db_alice
   \<and> (0::int) \<le> 25
   \<and> nonneg_balances (snd (create_account ''Bob'' ''B2'' 25 db_alice))
   \<and> nonneg_balances (snd (deposit 10 ''A1'' 50 db_alice))
   \<and> nonneg_balances (snd (withdraw 10 ''A1'' 100 db_alice))
   \<and> get_account db_alice ''A1'' = Some alice
   \<and> nonneg_balances (snd (snd (Account_deposit alice 50 db_alice)))
   \<and> Account_withdraw alice 100 db_alice =
        Inr (alice\<lparr>self_balance := 0\<rparr>, update_balance 0 ''A1'' db_alice)
   \<and> nonneg_balances (update_balance 0 ''A1'' db_alice)
   \<and> nonneg_balances (add_transaction 10 alice ''Withdrawn'' 100 db_alice)"
proof -
  have h: "nonneg_balances db_alice"
    by (simp add: nonneg_balances_def db_alice_def)
  have g: "get_account db_alice ''A1'' = Some alice"
    using get_account_Some [OF select_db_alice] by (simp add: alice_def)
  have w: "Account_withdraw alice 100 db_alice =
        Inr (alice\<lparr>self_balance := 0\<rparr>, update_balance 0 ''A1'' db_alice)"
    by (simp add: Account_withdraw_def alice_def Let_def to_float_exact)
  show ?thesis
    using h g w
      balances_stay_nonneg [OF h, where b = 25 and n = "''Bob''" and a = "''B2''" and now = 10
        and amt = 50 and self = alice and d = "''Withdrawn''"]
      balances_stay_nonneg [OF h, where a = "''A1''" and now = 10
        and amt = 50 and self = alice and d = "''Withdrawn''"]
      balances_stay_nonneg [OF h, where a = "''A1''" and now = 10
        and amt = 100 and self = alice and d = "''Withdrawn''"
        and self' = "alice\<lparr>self_balance := 0\<rparr>" and db' = "update_balance 0 ''A1'' db_alice"]
    by simp
qed




section \<open>The transaction history\<close>

text \<open>
  Claim C6, as the code has it. Let the engine's \<^verbatim>\<open>ORDER BY\<close> return the rows it is
  given in some order. For an existing account with at least one \<^verbatim>\<open>Deposited\<close> or
  \<^verbatim>\<open>Withdrawn\<close> row, \<^verbatim>\<open>Bank.transaction_details\<close> shows no message and returns a list; the
  list is in descending order of timestamp; it holds exactly the account's
  \<^verbatim>\<open>Deposited\<close> and \<^verbatim>\<open>Withdrawn\<close> rows, each as often as the table does; and the rows of
  any one timestamp are the deposits of that timestamp, in the order the deposit
  query gave them, followed by the withdrawals of that timestamp, in the order the
  withdrawal query gave them.
\<close>

theorem transaction_details_newest_first:
  assumes "\<And>rows. mset (order_by rows) = mset rows"
    and "account_exists db a"
    and "filter (\<lambda>r. tx_account_number r = a \<and>
            (tx_transaction_desc r = ''Deposited'' \<or> tx_transaction_desc r = ''Withdrawn''))
           (transactions db) \<noteq> []"
  shows "\<exists>txs. transaction_details order_by db a = ([], Some txs)
       \<and> sorted (rev (map (\<lambda>x. snd (snd x)) txs))
       \<and> mset txs =
           mset (map fetched_of
             (filter (\<lambda>r. tx_account_number r = a \<and>
                (tx_transaction_desc r = ''Deposited'' \<or> tx_transaction_desc r = ''Withdrawn''))
               (transactions db)))
       \<and> (\<forall>t. filter (\<lambda>x. snd (snd x) = t) txs =
           filter (\<lambda>x. snd (snd x) = t) (select_transactions order_by db a ''Deposited'') @
           filter (\<lambda>x. snd (snd x) = t) (select_transactions order_by db a ''Withdrawn''))"
proof -
  let ?D = "select_transactions order_by db a ''Deposited''"
  let ?W = "select_transactions order_by db a ''Withdrawn''"
  let ?rows = "filter (\<lambda>r. tx_account_number r = a \<and>
                (tx_transaction_desc r = ''Deposited'' \<or> tx_transaction_desc r = ''Withdrawn''))
               (transactions db)"
  define txs where "txs = sort_reverse (\<lambda>x. snd (snd x)) (?D @ ?W)"
  have sorted: "sorted (rev (map (\<lambda>x. snd (snd x)) txs))"
    unfolding txs_def by (rule sorted_sort_reverse)
  have all: "mset txs = mset (map fetched_of ?rows)"
  proof -
    have "mset txs = mset ?D + mset ?W"
      by (simp add: txs_def)
    also have "\<dots> = image_mset fetched_of
         (mset (filter (\<lambda>r. tx_account_number r = a \<and> tx_transaction_desc r = ''Deposited'') (transactions db)) +
          mset (filter (\<lambda>r. tx_account_number r = a \<and> tx_transaction_desc r = ''Withdrawn'') (transactions db)))"
      by (simp add: mset_select_transactions [OF assms(1)])
    also have "\<dots> = mset (map fetched_of ?rows)"
      by (simp only: filter_either_description mset_map)
    finally show ?thesis .
  qed
  have ties: "filter (\<lambda>x. snd (snd x) = t) txs =
           filter (\<lambda>x. snd (snd x) = t) ?D @ filter (\<lambda>x. snd (snd x) = t) ?W" for t
    unfolding txs_def by (simp add: sort_reverse_stable)
  have "length txs = length (map fetched_of ?rows)"
    using all by (rule mset_eq_length)
  then have "txs \<noteq> []"
    using assms(3) by auto
  then have "transaction_details order_by db a = ([], Some txs)"
    using assms(2) by (simp add: transaction_details_exists txs_def Let_def)
  then show ?thesis
    using sorted all ties by blast
qed

theorem transaction_details_newest_first_witness:
  "(\<forall>rows. mset (order_by_timestamp_desc rows) = mset rows)
   \<and> account_exists db_history ''A1''
   \<and> filter (\<lambda>r. tx_account_number r = ''A1'' \<and>
            (tx_transaction_desc r = ''Deposited'' \<or> tx_transaction_desc r = ''Withdrawn''))
           (transactions db_history) \<noteq> []
   \<and> transaction_details order_by_timestamp_desc db_history ''A1'' =
       ([], Some [(''Deposited'', 5, 20), (''Withdrawn'', 30, 20), (''Deposited'', 50, 10)])
   \<and> sorted (rev (map (\<lambda>x. snd (snd x))
        [(''Deposited'', 5::int, 20::nat), (''Withdrawn'', 30, 20), (''Deposited'', 50, 10)]))
   \<and> mset [(''Deposited'', 5, 20), (''Withdrawn'', 30, 20), (''Deposited'', 50, 10)] =
       mset (map fetched_of
         (filter (\<lambda>r. tx_account_number r = ''A1'' \<and>
            (tx_transaction_desc r = ''Deposited'' \<or> tx_transaction_desc r = ''Withdrawn''))
           (transactions db_history)))
   \<and> filter (\<lambda>x. snd (snd x) = 20)
        [(''Deposited'', 5::int, 20::nat), (''Withdrawn'', 30, 20), (''Deposited'', 50, 10)] =
       [(''Deposited'', 5, 20)] @ [(''Withdrawn'', 30, 20)]"
proof -
  have rows: "filter (\<lambda>r. tx_account_number r = ''A1'' \<and>
            (tx_transaction_desc r = ''Deposited'' \<or> tx_transaction_desc r = ''Withdrawn''))
           (transactions db_history) \<noteq> []"
    by (simp add: db_history_def)
  obtain txs where txs: "transaction_details order_by_timestamp_desc db_history ''A1'' = ([], Some txs)"
    and sorted: "sorted (rev (map (\<lambda>x. snd (snd x)) txs))"
    and all: "mset txs =
       mset (map fetched_of
         (filter (\<lambda>r. tx_account_number r = ''A1'' \<and>
            (tx_transaction_desc r = ''Deposited'' \<or> tx_transaction_desc r = ''Withdrawn''))
           (transactions db_history)))"
    and ties: "\<forall>t. filter (\<lambda>x. snd (snd x) = t) txs =
           filter (\<lambda>x. snd (snd x) = t)
             (select_transactions order_by_timestamp_desc db_history ''A1'' ''Deposited'') @
           filter (\<lambda>x. snd (snd x) = t)
             (select_transactions order_by_timestamp_desc db_history ''A1'' ''Withdrawn'')"
    using transaction_details_newest_first [OF mset_order_by_timestamp_desc exists_db_history rows]
    by blast
  have eq: "txs = [(''Deposited'', 5, 20), (''Withdrawn'', 30, 20), (''Deposited'', 50, 10)]"
    using txs transaction_details_db_history by simp
  have tie: "filter (\<lambda>x. snd (snd x) = 20) txs = [(''Deposited'', 5, 20)] @ [(''Withdrawn'', 30, 20)]"
    using ties by (simp add: select_deposited_db_history select_withdrawn_db_history)
  show ?thesis
    using mset_order_by_timestamp_desc exists_db_history rows transaction_details_db_history
      sorted all tie
    unfolding eq by simp
qed

text \<open>
  Claim C6 as stated fails at a tie. After a deposit of 50 at time 10, a withdrawal
  of 30 at time 20 and a deposit of 5 in that same second, insertion order puts the
  withdrawal before the second deposit; \<^verbatim>\<open>Bank.transaction_details\<close> returns the deposit
  first. Each of the two queries returns rows of different timestamps here, so the
  engine's order among ties plays no part.
\<close>

theorem transaction_details_ties_counterexample:
  "snd (deposit 20 ''A1'' 5 (snd (withdraw 20 ''A1'' 30 (snd (deposit 10 ''A1'' 50 db_alice))))) = db_history
   \<and> history_in_insertion_order db_history ''A1'' =
       [(''Withdrawn'', 30, 20), (''Deposited'', 5, 20), (''Deposited'', 50, 10)]
   \<and> transaction_details order_by_timestamp_desc db_history ''A1'' =
       ([], Some [(''Deposited'', 5, 20), (''Withdrawn'', 30, 20), (''Deposited'', 50, 10)])
   \<and> snd (transaction_details order_by_timestamp_desc db_history ''A1'') \<noteq>
       Some (history_in_insertion_order db_history ''A1'')"
proof -
  have s1: "snd (deposit 10 ''A1'' 50 db_alice) =
      \<lparr>accounts = [\<lparr>account_number = ''A1'', name = ''Alice'', balance = 150\<rparr>],
       transactions = [\<lparr>tx_id = 1, tx_account_number = ''A1'', tx_transaction_desc = ''Deposited'',
          tx_amount = 50, tx_timestamp = 10\<rparr>]\<rparr>"
    by (simp add: deposit_def get_account_def select_account_def load_account_info_def
        Account_init_def Account_deposit_def add_transaction_def insert_transaction_def
        update_balance_def next_id_def Let_def db_alice_def to_float_exact)
  have s2: "snd (withdraw 20 ''A1'' 30 (snd (deposit 10 ''A1'' 50 db_alice))) =
      \<lparr>accounts = [\<lparr>account_number = ''A1'', name = ''Alice'', balance = 120\<rparr>],
       transactions = [\<lparr>tx_id = 1, tx_account_number = ''A1'', tx_transaction_desc = ''Deposited'',
          tx_amount = 50, tx_timestamp = 10\<rparr>,
         \<lparr>tx_id = 2, tx_account_number = ''A1'', tx_transaction_desc = ''Withdrawn'',
          tx_amount = 30, tx_timestamp = 20\<rparr>]\<rparr>"
    unfolding s1
    by (simp add: withdraw_def get_account_def select_account_def load_account_info_def
        Account_init_def Account_withdraw_def add_transaction_def insert_transaction_def
        update_balance_def next_id_def Let_def to_float_exact)
  have s3: "snd (deposit 20 ''A1'' 5 (snd (withdraw 20 ''A1'' 30 (snd (deposit 10 ''A1'' 50 db_alice))))) = db_history"
    unfolding s2
    by (simp add: deposit_def get_account_def select_account_def load_account_info_def
        Account_init_def Account_deposit_def add_transaction_def insert_transaction_def
        update_balance_def next_id_def Let_def db_history_def to_float_exact)
  have h: "history_in_insertion_order db_history ''A1'' =
       [(''Withdrawn'', 30, 20), (''Deposited'', 5, 20), (''Deposited'', 50, 10)]"
    by (simp add: history_in_insertion_order_def sort_reverse_def fetched_of_def db_history_def)
  show ?thesis
    by (simp add: s3 h transaction_details_db_history)
qed


text \<open>
  Claim C7, as the code has it. For an existing account without transactions,
  \<^verbatim>\<open>Bank.transaction_details\<close> shows the warning \<^verbatim>\<open>No transactions found for this account.\<close>
  and returns \<^verbatim>\<open>None\<close>. For an account that does not exist it shows the
  account-does-not-exist error and returns \<^verbatim>\<open>None\<close> as well: the two outcomes differ
  in the message shown and agree in the value returned.
\<close>

theorem transaction_details_no_rows:
  assumes "\<And>rows. mset (order_by rows) = mset rows"
    and "account_exists db a"
    and "filter (\<lambda>r. tx_account_number r = a) (transactions db) = []"
  shows "transaction_details order_by db a =
           ([St_warning ''No transactions found for this account.''], None)
       \<and> (\<not> account_exists db a' \<longrightarrow>
            transaction_details order_by db a' =
              ([St_error ''Account does not exist. Please enter a valid account number.''], None)
          \<and> fst (transaction_details order_by db a') \<noteq> fst (transaction_details order_by db a)
          \<and> snd (transaction_details order_by db a') = snd (transaction_details order_by db a))"
proof -
  have sel: "select_transactions order_by db a d = []" for d
    using filter_account_description_Nil [OF assms(3)] order_by_Nil [OF assms(1)]
    by (simp add: select_transactions_def)
  have empty: "transaction_details order_by db a =
           ([St_warning ''No transactions found for this account.''], None)"
    using assms(2) by (simp add: transaction_details_exists sel sort_reverse_def)
  show ?thesis
    by (simp add: empty transaction_details_absent)
qed

theorem transaction_details_no_rows_witness:
  "(\<forall>rows. mset (order_by_timestamp_desc rows) = mset rows)
   \<and> account_exists db_alice ''A1''
   \<and> filter (\<lambda>r. tx_account_number r = ''A1'') (transactions db_alice) = []
   \<and> \<not> account_exists db_alice ''A2''
   \<and> transaction_details order_by_timestamp_desc db_alice ''A1'' =
       ([St_warning ''No transactions found for this account.''], None)
   \<and> transaction_details order_by_timestamp_desc db_alice ''A2'' =
       ([St_error ''Account does not exist. Please enter a valid account number.''], None)"
  using mset_order_by_timestamp_desc exists_db_alice no_rows_db_alice absent_db_alice
    transaction_details_no_rows [OF mset_order_by_timestamp_desc exists_db_alice no_rows_db_alice,
      of "''A2''"]
  by simp

text \<open>
  Claim C7 as stated fails for Alice's new account: the value returned is \<^verbatim>\<open>None\<close>, not
  an empty list, and it is the value returned for the missing account \<^verbatim>\<open>A2\<close> too.
\<close>

theorem transaction_details_no_rows_counterexample:
  "create_account ''Alice'' ''A1'' 100 empty_database =
     ([St_success ''Account created successfully.''], db_alice)
   \<and> transactions db_alice = []
   \<and> snd (transaction_details order_by_timestamp_desc db_alice ''A1'') = None
   \<and> snd (transaction_details order_by_timestamp_desc db_alice ''A1'') \<noteq> Some []
   \<and> snd (transaction_details order_by_timestamp_desc db_alice ''A1'') =
     snd (transaction_details order_by_timestamp_desc db_alice ''A2'')"
proof -
  have "\<not> account_exists empty_database ''A1''"
    by (simp add: account_exists_def select_account_def empty_database_def)
  then have c: "create_account ''Alice'' ''A1'' 100 empty_database =
     ([St_success ''Account created successfully.''], db_alice)"
    by (simp add: create_account_fresh insert_account_def empty_database_def db_alice_def)
  have t: "transactions db_alice = []"
    by (simp add: db_alice_def)
  have a1: "transaction_details order_by_timestamp_desc db_alice ''A1'' =
       ([St_warning ''No transactions found for this account.''], None)"
    by (simp add: transaction_details_exists [OF exists_db_alice] select_transactions_def t
        order_by_timestamp_desc_def sort_reverse_def)
  have a2: "transaction_details order_by_timestamp_desc db_alice ''A2'' =
       ([St_error ''Account does not exist. Please enter a valid account number.''], None)"
    using absent_db_alice by (rule transaction_details_absent)
  show ?thesis
    by (simp add: c t a1 a2)
qed

end
